theory Spec2Isabelle
  imports Main
begin

section \<open>Python values\<close>

text \<open>
  The manager handles identities, claims, keys and configuration values without
  looking inside them. One type of Python values stands for all of them. A
  \<open>datetime.timedelta\<close> is kept as its length in seconds.
\<close>

datatype pyval =
    PNone
  | PBool bool
  | PInt int
  | PStr string
  | PList "pyval list"
  | PDict "(string \<times> pyval) list"
  | PTimedelta int

definition timedelta_minutes :: "int \<Rightarrow> pyval" where
  "timedelta_minutes m = PTimedelta (60 * m)"

definition timedelta_days :: "int \<Rightarrow> pyval" where
  "timedelta_days d = PTimedelta (86400 * d)"

section \<open>Coroutines\<close>

text \<open>
  Calling an \<open>async def\<close> function runs none of its body: the call returns a
  coroutine object, and the body runs when that object is awaited. None of the
  coroutine functions of the manager awaits anything itself, so a coroutine is
  its body as a state transformer, run in one piece by \<open>await\<close>.
\<close>

datatype ('s, 'a) coroutine = Coroutine (body: "'s \<Rightarrow> 'a \<times> 's")

definition await :: "('s, 'a) coroutine \<Rightarrow> 's \<Rightarrow> 'a \<times> 's" where
  "await c s = body c s"

section \<open>Exceptions and the callback registry\<close>

text \<open>
  The exception classes the manager imports, and Python's \<open>TypeError\<close>, raised when
  an attribute holding \<open>None\<close> is called or a function is called with a number of
  positional arguments other than the number of parameters it declares.
\<close>

datatype exc_class =
    NoAuthorizationError
  | CSRFError
  | ExpiredSignatureError
  | InvalidHeaderError
  | InvalidTokenError
  | JWTDecodeError
  | WrongTokenError
  | RevokedTokenError
  | FreshTokenRequired
  | UserLoadError
  | UserClaimsVerificationError
  | TypeError

datatype exc = Exc exc_class string

fun class_of :: "exc \<Rightarrow> exc_class" where
  "class_of (Exc c m) = c"

text \<open>
  What a handler can be passed in a call: the request, of which a handler could
  read only its string form, or the exception that was raised.
\<close>

datatype positional = Request string | Raised exc

fun str :: "positional \<Rightarrow> string" where
  "str (Request r) = r"
| "str (Raised (Exc c m)) = m"

text \<open>
  The fourteen callback attributes of \<open>JWTManager\<close> (lines 39 to 52), without the
  leading underscore. The object is the mapping from attribute to the function it
  holds; \<open>None\<close> is Python's \<open>None\<close>.
\<close>

datatype hook =
    user_claims_callback
  | user_identity_callback
  | expired_token_callback
  | invalid_token_callback
  | unauthorized_callback
  | needs_fresh_token_callback
  | revoked_token_callback
  | user_loader_callback
  | user_loader_error_callback
  | token_in_blacklist_callback
  | claims_verification_callback
  | verify_claims_failed_callback
  | decode_key_callback
  | encode_key_callback

type_synonym callable = "pyval list \<Rightarrow> pyval"

type_synonym jwt_manager = "hook \<Rightarrow> callable option"

definition call_hook :: "jwt_manager \<Rightarrow> hook \<Rightarrow> pyval list \<Rightarrow> exc_class + pyval" where
  "call_hook self h args = (case self h of None \<Rightarrow> Inl TypeError | Some f \<Rightarrow> Inr (f args))"

text \<open>The twelve functions imported from \<open>default_callbacks\<close>, taken as given.\<close>

record default_callbacks =
  default_expired_token_callback :: callable
  default_user_claims_callback :: callable
  default_user_identity_callback :: callable
  default_invalid_token_callback :: callable
  default_unauthorized_callback :: callable
  default_needs_fresh_token_callback :: callable
  default_revoked_token_callback :: callable
  default_user_loader_error_callback :: callable
  default_claims_verification_callback :: callable
  default_verify_claims_failed_callback :: callable
  default_decode_key_callback :: callable
  default_encode_key_callback :: callable

section \<open>The application\<close>

text \<open>
  \<open>get_jwt_identity\<close> belongs to the \<open>utils\<close> module, which is not among the sources.
  It takes no argument and reads the current request. The request context is the
  value it returns there: by the comment at lines 136 to 138, the identity that was
  saved from the decoded token before the user loader ran.
\<close>

record request_ctx =
  get_jwt_identity :: pyval

text \<open>
  Every handler registered by \<open>_set_exception_callbacks\<close> is declared with the one
  parameter \<open>e\<close> and has the body \<open>return await self.<attribute>(<arguments>)\<close>: it is
  the attribute it calls and the arguments it builds from the request context and
  \<open>e\<close>. The attribute is read from \<open>self\<close> when the handler runs.
\<close>

record handler =
  target :: hook
  arguments :: "request_ctx \<Rightarrow> positional \<Rightarrow> pyval list"

text \<open>The body of a handler, with \<open>e\<close> bound.\<close>

definition run_handler ::
  "jwt_manager \<Rightarrow> request_ctx \<Rightarrow> handler \<Rightarrow> positional \<Rightarrow> exc_class + pyval" where
  "run_handler self ctx hdl e = call_hook self (target hdl) (arguments hdl ctx e)"

text \<open>
  A call of a handler with a list of positional arguments: the one parameter is
  bound when exactly one argument is passed, and any other call raises \<open>TypeError\<close>
  before the body runs.
\<close>

fun call_handler ::
  "jwt_manager \<Rightarrow> request_ctx \<Rightarrow> handler \<Rightarrow> positional list \<Rightarrow> exc_class + pyval" where
  "call_handler self ctx hdl [e] = run_handler self ctx hdl e"
| "call_handler self ctx hdl args = Inl TypeError"

record sanic =
  config :: "string \<rightharpoonup> pyval"
  exception_handlers :: "(exc_class \<times> handler) list"

text \<open>\<open>app.exception(cls)(fn)\<close>: the application records the handler for the class.\<close>

definition exception :: "exc_class \<Rightarrow> handler \<Rightarrow> sanic \<Rightarrow> sanic" where
  "exception cls hdl app = app\<lparr>exception_handlers := exception_handlers app @ [(cls, hdl)]\<rparr>"

text \<open>
  The application answers an exception with the first handler recorded for its
  class, which Sanic calls as \<open>handler(request, exception)\<close>.
\<close>

definition handle_exception ::
  "sanic \<Rightarrow> jwt_manager \<Rightarrow> request_ctx \<Rightarrow> string \<Rightarrow> exc \<Rightarrow> (exc_class + pyval) option" where
  "handle_exception app self ctx request e =
     (case map_of (exception_handlers app) (class_of e) of
        None \<Rightarrow> None
      | Some hdl \<Rightarrow> Some (call_handler self ctx hdl [Request request, Raised e]))"

definition routing :: "sanic \<Rightarrow> (exc_class \<times> hook) list" where
  "routing app = map (\<lambda>(cls, hdl). (cls, target hdl)) (exception_handlers app)"

section \<open>JWTManager\<close>

subsection \<open>Exception handlers\<close>

definition handle_auth_error :: handler where
  "handle_auth_error = \<lparr>target = unauthorized_callback, arguments = (\<lambda>ctx e. [PStr (str e)])\<rparr>"

definition handle_csrf_error :: handler where
  "handle_csrf_error = \<lparr>target = unauthorized_callback, arguments = (\<lambda>ctx e. [PStr (str e)])\<rparr>"

definition handle_expired_error :: handler where
  "handle_expired_error = \<lparr>target = expired_token_callback, arguments = (\<lambda>ctx e. [])\<rparr>"

definition handle_invalid_header_error :: handler where
  "handle_invalid_header_error =
     \<lparr>target = invalid_token_callback, arguments = (\<lambda>ctx e. [PStr (str e)])\<rparr>"

definition handle_invalid_token_error :: handler where
  "handle_invalid_token_error =
     \<lparr>target = invalid_token_callback, arguments = (\<lambda>ctx e. [PStr (str e)])\<rparr>"

definition handle_jwt_decode_error :: handler where
  "handle_jwt_decode_error =
     \<lparr>target = invalid_token_callback, arguments = (\<lambda>ctx e. [PStr (str e)])\<rparr>"

definition handle_wrong_token_error :: handler where
  "handle_wrong_token_error =
     \<lparr>target = invalid_token_callback, arguments = (\<lambda>ctx e. [PStr (str e)])\<rparr>"

definition handle_revoked_token_error :: handler where
  "handle_revoked_token_error = \<lparr>target = revoked_token_callback, arguments = (\<lambda>ctx e. [])\<rparr>"

definition handle_fresh_token_required :: handler where
  "handle_fresh_token_required =
     \<lparr>target = needs_fresh_token_callback, arguments = (\<lambda>ctx e. [])\<rparr>"

definition handler_user_load_error :: handler where
  "handler_user_load_error =
     \<lparr>target = user_loader_error_callback, arguments = (\<lambda>ctx e. [get_jwt_identity ctx])\<rparr>"

definition handle_failed_user_claims_verification :: handler where
  "handle_failed_user_claims_verification =
     \<lparr>target = verify_claims_failed_callback, arguments = (\<lambda>ctx e. [])\<rparr>"

definition set_exception_callbacks :: "sanic \<Rightarrow> sanic" where
  "set_exception_callbacks app =
     (let app = exception NoAuthorizationError handle_auth_error app;
          app = exception CSRFError handle_csrf_error app;
          app = exception ExpiredSignatureError handle_expired_error app;
          app = exception InvalidHeaderError handle_invalid_header_error app;
          app = exception InvalidTokenError handle_invalid_token_error app;
          app = exception JWTDecodeError handle_jwt_decode_error app;
          app = exception WrongTokenError handle_wrong_token_error app;
          app = exception RevokedTokenError handle_revoked_token_error app;
          app = exception FreshTokenRequired handle_fresh_token_required app;
          app = exception UserLoadError handler_user_load_error app;
          app = exception UserClaimsVerificationError handle_failed_user_claims_verification app
      in app)"

subsection \<open>Default configuration options\<close>

definition setdefault :: "(string \<rightharpoonup> pyval) \<Rightarrow> string \<Rightarrow> pyval \<Rightarrow> (string \<rightharpoonup> pyval)" where
  "setdefault d k v = (case d k of None \<Rightarrow> d(k \<mapsto> v) | Some old \<Rightarrow> d)"

text \<open>The \<open>setdefault\<close> calls of lines 152 to 213, in their order.\<close>

definition default_configuration_options :: "(string \<times> pyval) list" where
  "default_configuration_options =
     [(''JWT_TOKEN_LOCATION'', PList [PStr ''headers'']),
      (''JWT_HEADER_NAME'', PStr ''Authorization''),
      (''JWT_HEADER_TYPE'', PStr ''Bearer''),
      (''JWT_QUERY_STRING_NAME'', PStr ''jwt''),
      (''JWT_ACCESS_COOKIE_NAME'', PStr ''access_token_cookie''),
      (''JWT_REFRESH_COOKIE_NAME'', PStr ''refresh_token_cookie''),
      (''JWT_ACCESS_COOKIE_PATH'', PStr ''/''),
      (''JWT_REFRESH_COOKIE_PATH'', PStr ''/''),
      (''JWT_COOKIE_SECURE'', PBool False),
      (''JWT_COOKIE_DOMAIN'', PNone),
      (''JWT_SESSION_COOKIE'', PBool True),
      (''JWT_COOKIE_SAMESITE'', PNone),
      (''JWT_JSON_KEY'', PStr ''access_token''),
      (''JWT_REFRESH_JSON_KEY'', PStr ''refresh_token''),
      (''JWT_COOKIE_CSRF_PROTECT'', PBool True),
      (''JWT_CSRF_METHODS'', PList [PStr ''POST'', PStr ''PUT'', PStr ''PATCH'', PStr ''DELETE'']),
      (''JWT_ACCESS_CSRF_HEADER_NAME'', PStr ''X-CSRF-TOKEN''),
      (''JWT_REFRESH_CSRF_HEADER_NAME'', PStr ''X-CSRF-TOKEN''),
      (''JWT_CSRF_IN_COOKIES'', PBool True),
      (''JWT_ACCESS_CSRF_COOKIE_NAME'', PStr ''csrf_access_token''),
      (''JWT_REFRESH_CSRF_COOKIE_NAME'', PStr ''csrf_refresh_token''),
      (''JWT_ACCESS_CSRF_COOKIE_PATH'', PStr ''/''),
      (''JWT_REFRESH_CSRF_COOKIE_PATH'', PStr ''/''),
      (''JWT_ACCESS_TOKEN_EXPIRES'', timedelta_minutes 15),
      (''JWT_REFRESH_TOKEN_EXPIRES'', timedelta_days 30),
      (''JWT_ALGORITHM'', PStr ''HS256''),
      (''JWT_SECRET_KEY'', PNone),
      (''JWT_PRIVATE_KEY'', PNone),
      (''JWT_PUBLIC_KEY'', PNone),
      (''JWT_BLACKLIST_ENABLED'', PBool False),
      (''JWT_BLACKLIST_TOKEN_CHECKS'', PList [PStr ''access'', PStr ''refresh'']),
      (''JWT_IDENTITY_CLAIM'', PStr ''identity''),
      (''JWT_USER_CLAIMS'', PStr ''user_claims''),
      (''JWT_CLAIMS_IN_REFRESH_TOKEN'', PBool False),
      (''JWT_ERROR_MESSAGE_KEY'', PStr ''msg'')]"

fun setdefaults :: "(string \<rightharpoonup> pyval) \<Rightarrow> (string \<times> pyval) list \<Rightarrow> (string \<rightharpoonup> pyval)" where
  "setdefaults d [] = d"
| "setdefaults d ((k, v) # kvs) = setdefaults (setdefault d k v) kvs"

text \<open>
  \<open>_set_default_configuration_options\<close> is declared \<open>async def\<close>: the call returns
  the coroutine and leaves the application as it was.
\<close>

definition set_default_configuration_options :: "sanic \<Rightarrow> (sanic, unit) coroutine \<times> sanic" where
  "set_default_configuration_options app =
     (Coroutine (\<lambda>a. ((), a\<lparr>config := setdefaults (config a) default_configuration_options\<rparr>)),
      app)"

text \<open>
  \<open>init_app\<close> is a plain function; it calls \<open>_set_default_configuration_options\<close>
  without awaiting the result, drops the coroutine, and registers the handlers.
\<close>

definition init_app :: "jwt_manager \<Rightarrow> sanic \<Rightarrow> sanic" where
  "init_app self app =
     (let (coro, app) = set_default_configuration_options app
      in set_exception_callbacks app)"

subsection \<open>Construction\<close>

definition JWTManager_init :: "default_callbacks \<Rightarrow> sanic option \<Rightarrow> jwt_manager \<times> sanic option" where
  "JWTManager_init D app =
     (let self = (\<lambda>h. None);
          self = self(user_claims_callback \<mapsto> default_user_claims_callback D);
          self = self(user_identity_callback \<mapsto> default_user_identity_callback D);
          self = self(expired_token_callback \<mapsto> default_expired_token_callback D);
          self = self(invalid_token_callback \<mapsto> default_invalid_token_callback D);
          self = self(unauthorized_callback \<mapsto> default_unauthorized_callback D);
          self = self(needs_fresh_token_callback \<mapsto> default_needs_fresh_token_callback D);
          self = self(revoked_token_callback \<mapsto> default_revoked_token_callback D);
          self = self(user_loader_callback := None);
          self = self(user_loader_error_callback \<mapsto> default_user_loader_error_callback D);
          self = self(token_in_blacklist_callback := None);
          self = self(claims_verification_callback \<mapsto> default_claims_verification_callback D);
          self = self(verify_claims_failed_callback \<mapsto> default_verify_claims_failed_callback D);
          self = self(decode_key_callback \<mapsto> default_decode_key_callback D);
          self = self(encode_key_callback \<mapsto> default_encode_key_callback D)
      in (case app of
            None \<Rightarrow> (self, None)
          | Some a \<Rightarrow> (self, Some (init_app self a))))"

subsection \<open>Loaders\<close>

text \<open>
  Each loader stores the callback in its attribute and returns the callback. The
  first three are declared \<open>async def\<close>: the call returns a coroutine and leaves the
  manager as it was, and the assignment happens when the coroutine is awaited.
\<close>

definition user_claims_loader ::
  "jwt_manager \<Rightarrow> callable \<Rightarrow> (jwt_manager, callable) coroutine \<times> jwt_manager" where
  "user_claims_loader self callback =
     (Coroutine (\<lambda>s. (callback, s(user_claims_callback \<mapsto> callback))), self)"

definition user_identity_loader ::
  "jwt_manager \<Rightarrow> callable \<Rightarrow> (jwt_manager, callable) coroutine \<times> jwt_manager" where
  "user_identity_loader self callback =
     (Coroutine (\<lambda>s. (callback, s(user_identity_callback \<mapsto> callback))), self)"

definition expired_token_loader ::
  "jwt_manager \<Rightarrow> callable \<Rightarrow> (jwt_manager, callable) coroutine \<times> jwt_manager" where
  "expired_token_loader self callback =
     (Coroutine (\<lambda>s. (callback, s(expired_token_callback \<mapsto> callback))), self)"

definition invalid_token_loader :: "jwt_manager \<Rightarrow> callable \<Rightarrow> callable \<times> jwt_manager" where
  "invalid_token_loader self callback = (callback, self(invalid_token_callback \<mapsto> callback))"

definition unauthorized_loader :: "jwt_manager \<Rightarrow> callable \<Rightarrow> callable \<times> jwt_manager" where
  "unauthorized_loader self callback = (callback, self(unauthorized_callback \<mapsto> callback))"

definition needs_fresh_token_loader :: "jwt_manager \<Rightarrow> callable \<Rightarrow> callable \<times> jwt_manager" where
  "needs_fresh_token_loader self callback =
     (callback, self(needs_fresh_token_callback \<mapsto> callback))"

definition revoked_token_loader :: "jwt_manager \<Rightarrow> callable \<Rightarrow> callable \<times> jwt_manager" where
  "revoked_token_loader self callback = (callback, self(revoked_token_callback \<mapsto> callback))"

definition user_loader_callback_loader :: "jwt_manager \<Rightarrow> callable \<Rightarrow> callable \<times> jwt_manager" where
  "user_loader_callback_loader self callback =
     (callback, self(user_loader_callback \<mapsto> callback))"

definition user_loader_error_loader :: "jwt_manager \<Rightarrow> callable \<Rightarrow> callable \<times> jwt_manager" where
  "user_loader_error_loader self callback =
     (callback, self(user_loader_error_callback \<mapsto> callback))"

definition token_in_blacklist_loader :: "jwt_manager \<Rightarrow> callable \<Rightarrow> callable \<times> jwt_manager" where
  "token_in_blacklist_loader self callback =
     (callback, self(token_in_blacklist_callback \<mapsto> callback))"

definition claims_verification_loader :: "jwt_manager \<Rightarrow> callable \<Rightarrow> callable \<times> jwt_manager" where
  "claims_verification_loader self callback =
     (callback, self(claims_verification_callback \<mapsto> callback))"

definition claims_verification_failed_loader ::
  "jwt_manager \<Rightarrow> callable \<Rightarrow> callable \<times> jwt_manager" where
  "claims_verification_failed_loader self callback =
     (callback, self(verify_claims_failed_callback \<mapsto> callback))"

definition decode_key_loader :: "jwt_manager \<Rightarrow> callable \<Rightarrow> callable \<times> jwt_manager" where
  "decode_key_loader self callback = (callback, self(decode_key_callback \<mapsto> callback))"

definition encode_key_loader :: "jwt_manager \<Rightarrow> callable \<Rightarrow> callable \<times> jwt_manager" where
  "encode_key_loader self callback = (callback, self(encode_key_callback \<mapsto> callback))"

subsection \<open>Token creation\<close>

text \<open>
  The properties of the \<open>config\<close> object that the manager reads. The object belongs
  to the \<open>config\<close> module, which is not among the sources; its properties are taken
  as given values. Lifetimes are in seconds.
\<close>

record jwt_config =
  access_expires :: int
  refresh_expires :: int
  user_claims_in_refresh_token :: bool
  algorithm :: string
  csrf_protect :: bool
  identity_claim_key :: string
  user_claims_key :: string
  json_encoder :: pyval

text \<open>
  \<open>encode_refresh_token\<close> and \<open>encode_access_token\<close> belong to the \<open>tokens\<close> module,
  which is not among the sources. The manager takes them as functions of the keyword
  arguments it passes, in the order of the call: identity, secret, algorithm,
  expires_delta, (fresh,) user_claims, csrf, identity_claim_key, user_claims_key,
  json_encoder.
\<close>

type_synonym 'tok refresh_encoder =
  "pyval \<Rightarrow> pyval \<Rightarrow> string \<Rightarrow> int \<Rightarrow> pyval \<Rightarrow> bool \<Rightarrow> string \<Rightarrow> string \<Rightarrow> pyval \<Rightarrow> 'tok"

type_synonym 'tok access_encoder =
  "pyval \<Rightarrow> pyval \<Rightarrow> string \<Rightarrow> int \<Rightarrow> bool \<Rightarrow> pyval \<Rightarrow> bool \<Rightarrow> string \<Rightarrow> string \<Rightarrow> pyval \<Rightarrow> 'tok"

definition create_refresh_token ::
  "'tok refresh_encoder \<Rightarrow> jwt_config \<Rightarrow> jwt_manager \<Rightarrow> pyval \<Rightarrow> int option \<Rightarrow> exc_class + 'tok" where
  "create_refresh_token encode_refresh cfg self ident expires =
     (let expires_delta = (case expires of None \<Rightarrow> refresh_expires cfg | Some d \<Rightarrow> d)
      in case (if user_claims_in_refresh_token cfg
               then call_hook self user_claims_callback [ident]
               else Inr PNone) of
           Inl err \<Rightarrow> Inl err
         | Inr user_claims \<Rightarrow>
             (case call_hook self user_identity_callback [ident] of
                Inl err \<Rightarrow> Inl err
              | Inr jwt_ident \<Rightarrow>
                  (case call_hook self encode_key_callback [ident] of
                     Inl err \<Rightarrow> Inl err
                   | Inr secret \<Rightarrow>
                       Inr (encode_refresh jwt_ident secret (algorithm cfg) expires_delta
                              user_claims (csrf_protect cfg) (identity_claim_key cfg)
                              (user_claims_key cfg) (json_encoder cfg)))))"

definition create_access_token ::
  "'tok access_encoder \<Rightarrow> jwt_config \<Rightarrow> jwt_manager \<Rightarrow> pyval \<Rightarrow> bool \<Rightarrow> int option \<Rightarrow>
     exc_class + 'tok" where
  "create_access_token encode_access cfg self ident fresh_flag expires =
     (let expires_delta = (case expires of None \<Rightarrow> access_expires cfg | Some d \<Rightarrow> d)
      in case call_hook self user_identity_callback [ident] of
           Inl err \<Rightarrow> Inl err
         | Inr jwt_ident \<Rightarrow>
             (case call_hook self encode_key_callback [ident] of
                Inl err \<Rightarrow> Inl err
              | Inr secret \<Rightarrow>
                  (case call_hook self user_claims_callback [ident] of
                     Inl err \<Rightarrow> Inl err
                   | Inr user_claims \<Rightarrow>
                       Inr (encode_access jwt_ident secret (algorithm cfg) expires_delta
                              fresh_flag user_claims (csrf_protect cfg) (identity_claim_key cfg)
                              (user_claims_key cfg) (json_encoder cfg)))))"

section \<open>The token codec\<close>

text \<open>
  Modelled from the spec: the token of the data model, which the \<open>tokens\<close> module
  (not among the sources) builds and signs. Times are in seconds.
\<close>

datatype token_type = Access | Refresh

record token =
  identity :: pyval
  token_type :: token_type
  fresh :: bool
  issued_at :: int
  expires_at :: int
  not_before :: "int option"
  csrf_value :: "string option"
  custom_claims :: pyval

text \<open>
  Modelled from the spec: the signature library, which is not among the sources and
  which the spec treats as opaque. It signs a payload into a token string under an
  algorithm, a key, a JSON encoder and the two configured claim keys; it reads the
  claims of a token string without checking the signature; and it checks a token
  string against a key, giving back the payload when the signature is valid. The
  type of token strings is left open.
\<close>

record 'tok primitive =
  sign :: "string \<Rightarrow> pyval \<Rightarrow> pyval \<Rightarrow> string \<times> string \<Rightarrow> token \<Rightarrow> 'tok"
  unverified_claims :: "'tok \<Rightarrow> pyval option"
  verify :: "string \<Rightarrow> pyval \<Rightarrow> string \<times> string \<Rightarrow> 'tok \<Rightarrow> token option"

text \<open>
  Modelled from the spec: what the encode step of the \<open>tokens\<close> module takes from its
  environment, the clock and a new CSRF value.
\<close>

record issue_env =
  now :: int
  new_csrf_value :: string

text \<open>
  Modelled from the spec: the payload built by the encode step of the \<open>tokens\<close>
  module, which is not among the sources. The identity and the custom claims are
  stored as given, the token is issued now and expires after \<open>expires_delta\<close>, no
  not-before time is set, and a CSRF value is embedded exactly when CSRF protection
  is requested.
\<close>

definition token_data ::
  "issue_env \<Rightarrow> pyval \<Rightarrow> token_type \<Rightarrow> bool \<Rightarrow> int \<Rightarrow> pyval \<Rightarrow> bool \<Rightarrow> token" where
  "token_data env ident ttype fresh_flag expires_delta user_claims csrf =
     \<lparr>identity = ident,
      token_type = ttype,
      fresh = fresh_flag,
      issued_at = now env,
      expires_at = now env + expires_delta,
      not_before = None,
      csrf_value = (if csrf then Some (new_csrf_value env) else None),
      custom_claims = user_claims\<rparr>"

text \<open>
  Modelled from the spec: \<open>encode_access_token\<close> of the \<open>tokens\<close> module, which is not
  among the sources. It signs an access payload carrying the given fresh flag.
\<close>

definition encode_access_token :: "'tok primitive \<Rightarrow> issue_env \<Rightarrow> 'tok access_encoder" where
  "encode_access_token prim env ident secret alg expires_delta fresh_flag user_claims csrf
       ident_key claims_key encoder =
     sign prim alg secret encoder (ident_key, claims_key)
       (token_data env ident Access fresh_flag expires_delta user_claims csrf)"

text \<open>
  Modelled from the spec: \<open>encode_refresh_token\<close> of the \<open>tokens\<close> module, which is
  not among the sources. It takes no fresh flag and signs a refresh payload that is
  not fresh.
\<close>

definition encode_refresh_token :: "'tok primitive \<Rightarrow> issue_env \<Rightarrow> 'tok refresh_encoder" where
  "encode_refresh_token prim env ident secret alg expires_delta user_claims csrf
       ident_key claims_key encoder =
     sign prim alg secret encoder (ident_key, claims_key)
       (token_data env ident Refresh False expires_delta user_claims csrf)"

text \<open>
  Modelled from the spec: the decode step of the \<open>tokens\<close> module, which is not among
  the sources. A token string whose claims cannot be read is malformed; the key is
  resolved by the decode-key callback from the unverified claims; a token string
  that does not verify under that key is invalid; a verified token whose expiry
  time has passed fails with the expiry error.
\<close>

definition decode ::
  "'tok primitive \<Rightarrow> jwt_config \<Rightarrow> jwt_manager \<Rightarrow> int \<Rightarrow> 'tok \<Rightarrow> exc_class + token" where
  "decode prim cfg self time encoded =
     (case unverified_claims prim encoded of
        None \<Rightarrow> Inl JWTDecodeError
      | Some claims \<Rightarrow>
          (case call_hook self decode_key_callback [claims] of
             Inl err \<Rightarrow> Inl err
           | Inr key \<Rightarrow>
               (case verify prim (algorithm cfg) key
                       (identity_claim_key cfg, user_claims_key cfg) encoded of
                  None \<Rightarrow> Inl InvalidTokenError
                | Some t \<Rightarrow>
                    if expires_at t < time then Inl ExpiredSignatureError else Inr t)))"

text \<open>
  Modelled from the spec: the \<open>csrf_protect\<close> property of the \<open>config\<close> module, which
  is not among the sources. CSRF protection applies to a token when the CSRF toggle
  is on and the cookie transport is among the configured token locations.
\<close>

datatype transport_location = Header | Cookie | Query_string | Json_body

definition csrf_protect_for :: "transport_location list \<Rightarrow> bool \<Rightarrow> bool" where
  "csrf_protect_for token_location cookie_csrf_protect \<longleftrightarrow>
     Cookie \<in> set token_location \<and> cookie_csrf_protect"

section \<open>Concrete values\<close>

text \<open>Small concrete inputs on which the theorems below are run.\<close>

definition first_arg :: callable where
  "first_arg args = (case args of [] \<Rightarrow> PNone | x # xs \<Rightarrow> x)"

definition example_defaults :: default_callbacks where
  "example_defaults =
     \<lparr>default_expired_token_callback = (\<lambda>args. PStr ''Token has expired''),
      default_user_claims_callback = (\<lambda>args. PDict []),
      default_user_identity_callback = first_arg,
      default_invalid_token_callback = first_arg,
      default_unauthorized_callback = first_arg,
      default_needs_fresh_token_callback = (\<lambda>args. PStr ''Fresh token required''),
      default_revoked_token_callback = (\<lambda>args. PStr ''Token has been revoked''),
      default_user_loader_error_callback = first_arg,
      default_claims_verification_callback = (\<lambda>args. PBool True),
      default_verify_claims_failed_callback = (\<lambda>args. PStr ''User claims verification failed''),
      default_decode_key_callback = (\<lambda>args. PStr ''secret''),
      default_encode_key_callback = (\<lambda>args. PStr ''secret'')\<rparr>"

definition example_manager :: jwt_manager where
  "example_manager = fst (JWTManager_init example_defaults None)"

definition empty_app :: sanic where
  "empty_app = \<lparr>config = Map.empty, exception_handlers = []\<rparr>"

definition example_app :: sanic where
  "example_app = \<lparr>config = [''JWT_ALGORITHM'' \<mapsto> PStr ''RS256''], exception_handlers = []\<rparr>"

definition example_config :: jwt_config where
  "example_config =
     \<lparr>access_expires = 900,
      refresh_expires = 2592000,
      user_claims_in_refresh_token = False,
      algorithm = ''HS256'',
      csrf_protect = False,
      identity_claim_key = ''identity'',
      user_claims_key = ''user_claims'',
      json_encoder = PNone\<rparr>"

definition cookie_config :: jwt_config where
  "cookie_config = example_config\<lparr>csrf_protect := True\<rparr>"

definition example_env :: issue_env where
  "example_env = \<lparr>now = 1000, new_csrf_value = ''c5''\<rparr>"

text \<open>A signature library on pairs: the token string is the key with the payload.\<close>

definition example_primitive :: "(pyval \<times> token) primitive" where
  "example_primitive =
     \<lparr>sign = (\<lambda>alg key encoder keys t. (key, t)),
      unverified_claims = (\<lambda>encoded. Some (identity (snd encoded))),
      verify = (\<lambda>alg key keys encoded. if fst encoded = key then Some (snd encoded) else None)\<rparr>"

text \<open>A refresh encoder that returns the \<open>user_claims\<close> argument it is given.\<close>

definition claims_of :: "pyval refresh_encoder" where
  "claims_of ident secret alg expires_delta user_claims csrf ident_key claims_key encoder =
     user_claims"

text \<open>A manager whose keys are resolved per identity: the key of an identity is the identity.\<close>

definition tenant_manager :: jwt_manager where
  "tenant_manager =
     snd (decode_key_loader (snd (encode_key_loader example_manager first_arg)) first_arg)"

section \<open>Configuration defaults\<close>

lemma setdefaults_lookup:
  "setdefaults d kvs k = (case d k of Some v \<Rightarrow> Some v | None \<Rightarrow> map_of kvs k)"
proof (induction kvs arbitrary: d)
  case Nil
  then show ?case by (simp split: option.splits)
next
  case (Cons kv kvs)
  obtain k' v' where kv: "kv = (k', v')" by (cases kv)
  show ?case
    unfolding kv setdefaults.simps Cons.IH
    by (auto simp: setdefault_def split: option.splits)
qed

lemma config_exception: "config (exception cls hdl app) = config app"
  by (simp add: exception_def)

lemma config_set_exception_callbacks: "config (set_exception_callbacks app) = config app"
  by (simp add: set_exception_callbacks_def Let_def config_exception)

lemma init_app_eq: "init_app self app = set_exception_callbacks app"
  by (simp add: init_app_def set_default_configuration_options_def)

lemma init_app_config: "config (init_app self app) = config app"
  by (simp add: init_app_eq config_set_exception_callbacks)

lemma awaited_config:
  "config (snd (await (fst (set_default_configuration_options app)) a)) =
     setdefaults (config a) default_configuration_options"
  by (simp add: await_def set_default_configuration_options_def)

lemma exception_handlers_set:
  "exception_handlers (set_exception_callbacks app) = exception_handlers app @
     [(NoAuthorizationError, handle_auth_error),
      (CSRFError, handle_csrf_error),
      (ExpiredSignatureError, handle_expired_error),
      (InvalidHeaderError, handle_invalid_header_error),
      (InvalidTokenError, handle_invalid_token_error),
      (JWTDecodeError, handle_jwt_decode_error),
      (WrongTokenError, handle_wrong_token_error),
      (RevokedTokenError, handle_revoked_token_error),
      (FreshTokenRequired, handle_fresh_token_required),
      (UserLoadError, handler_user_load_error),
      (UserClaimsVerificationError, handle_failed_user_claims_verification)]"
  by (simp add: set_exception_callbacks_def Let_def exception_def)

lemma awaited_defaults:
  "config (snd (await (fst (set_default_configuration_options empty_app)) empty_app)) k =
     map_of default_configuration_options k"
  by (simp add: awaited_config setdefaults_lookup empty_app_def)

section \<open>Calling the callbacks\<close>

lemma call_hook_Some: "self h = Some f \<Longrightarrow> call_hook self h args = Inr (f args)"
  by (simp add: call_hook_def)

lemma create_refresh_token_without_claims:
  assumes "\<not> user_claims_in_refresh_token cfg"
    and "self user_identity_callback = Some ic"
    and "self encode_key_callback = Some ek"
  shows "create_refresh_token enc cfg self i ex =
           Inr (enc (ic [i]) (ek [i]) (algorithm cfg)
                  (case ex of None \<Rightarrow> refresh_expires cfg | Some d \<Rightarrow> d)
                  PNone (csrf_protect cfg) (identity_claim_key cfg) (user_claims_key cfg)
                  (json_encoder cfg))"
  using assms by (simp add: create_refresh_token_def call_hook_Some)

lemma create_refresh_token_with_claims:
  assumes "user_claims_in_refresh_token cfg"
    and "self user_claims_callback = Some cc"
    and "self user_identity_callback = Some ic"
    and "self encode_key_callback = Some ek"
  shows "create_refresh_token enc cfg self i ex =
           Inr (enc (ic [i]) (ek [i]) (algorithm cfg)
                  (case ex of None \<Rightarrow> refresh_expires cfg | Some d \<Rightarrow> d)
                  (cc [i]) (csrf_protect cfg) (identity_claim_key cfg) (user_claims_key cfg)
                  (json_encoder cfg))"
  using assms by (simp add: create_refresh_token_def call_hook_Some)

lemma create_access_token_result:
  assumes "self user_identity_callback = Some ic"
    and "self encode_key_callback = Some ek"
    and "self user_claims_callback = Some cc"
  shows "create_access_token enc cfg self i fr ex =
           Inr (enc (ic [i]) (ek [i]) (algorithm cfg)
                  (case ex of None \<Rightarrow> access_expires cfg | Some d \<Rightarrow> d)
                  fr (cc [i]) (csrf_protect cfg) (identity_claim_key cfg) (user_claims_key cfg)
                  (json_encoder cfg))"
  using assms by (simp add: create_access_token_def call_hook_Some)

lemma create_refresh_token_Inr:
  assumes "create_refresh_token enc cfg self i ex = Inr tok"
  shows "\<exists>j k c. tok = enc j k (algorithm cfg)
                  (case ex of None \<Rightarrow> refresh_expires cfg | Some d \<Rightarrow> d)
                  c (csrf_protect cfg) (identity_claim_key cfg) (user_claims_key cfg)
                  (json_encoder cfg)"
  using assms
  by (auto simp: create_refresh_token_def Let_def split: sum.splits if_splits)

lemma create_access_token_Inr:
  assumes "create_access_token enc cfg self i fr ex = Inr tok"
  shows "\<exists>j k c. tok = enc j k (algorithm cfg)
                  (case ex of None \<Rightarrow> access_expires cfg | Some d \<Rightarrow> d)
                  fr c (csrf_protect cfg) (identity_claim_key cfg) (user_claims_key cfg)
                  (json_encoder cfg)"
  using assms
  by (auto simp: create_access_token_def Let_def split: sum.splits)

section \<open>Configuration and error routing\<close>

text \<open>
  C10. An option the application has set before \<open>init_app\<close> keeps its value: \<open>init_app\<close>
  leaves it as it was, and so does the body of the default-setting step when it is
  run, since \<open>setdefault\<close> writes only keys that are absent.
\<close>

theorem init_app_keeps_supplied_options:
  assumes "config app k = Some v"
  shows "config (init_app self app) k = Some v \<and>
         config (snd (await (fst (set_default_configuration_options app)) app)) k = Some v"
  using assms by (simp add: init_app_config awaited_config setdefaults_lookup)

text \<open>
  C10 on a concrete application that has set \<open>JWT_ALGORITHM\<close> to \<open>RS256\<close>.
\<close>

theorem init_app_keeps_supplied_options_witness:
  "config example_app ''JWT_ALGORITHM'' = Some (PStr ''RS256'') \<and>
   config (init_app example_manager example_app) ''JWT_ALGORITHM'' = Some (PStr ''RS256'') \<and>
   config (snd (await (fst (set_default_configuration_options example_app)) example_app))
     ''JWT_ALGORITHM'' = Some (PStr ''RS256'')"
proof -
  have h: "config example_app ''JWT_ALGORITHM'' = Some (PStr ''RS256'')"
    by (simp add: example_app_def)
  show ?thesis
    using h init_app_keeps_supplied_options [OF h, of example_manager] by simp
qed

text \<open>
  C3. \<open>init_app\<close> on an application with an empty configuration leaves the
  configuration empty: the default-setting step is a coroutine function that
  \<open>init_app\<close> calls and never awaits, so none of its \<open>setdefault\<close> calls runs. Had the
  coroutine been awaited, the options would hold the documented defaults.
\<close>

theorem init_app_sets_no_defaults:
  "config (init_app self empty_app) = Map.empty \<and>
   config (init_app self empty_app) ''JWT_ALGORITHM'' = None \<and>
   map (config (snd (await (fst (set_default_configuration_options empty_app)) empty_app)))
     [''JWT_TOKEN_LOCATION'', ''JWT_HEADER_NAME'', ''JWT_HEADER_TYPE'', ''JWT_QUERY_STRING_NAME'',
      ''JWT_COOKIE_CSRF_PROTECT'', ''JWT_CSRF_METHODS'', ''JWT_ACCESS_TOKEN_EXPIRES'',
      ''JWT_REFRESH_TOKEN_EXPIRES'', ''JWT_ALGORITHM'', ''JWT_IDENTITY_CLAIM'', ''JWT_USER_CLAIMS'',
      ''JWT_CLAIMS_IN_REFRESH_TOKEN'', ''JWT_ERROR_MESSAGE_KEY''] =
     [Some (PList [PStr ''headers'']), Some (PStr ''Authorization''), Some (PStr ''Bearer''),
      Some (PStr ''jwt''), Some (PBool True),
      Some (PList [PStr ''POST'', PStr ''PUT'', PStr ''PATCH'', PStr ''DELETE'']),
      Some (PTimedelta (15 * 60)), Some (PTimedelta (30 * 86400)), Some (PStr ''HS256''),
      Some (PStr ''identity''), Some (PStr ''user_claims''), Some (PBool False),
      Some (PStr ''msg'')]"
proof -
  have "config (init_app self empty_app) = Map.empty"
    by (simp add: init_app_config empty_app_def)
  moreover have "map (config (snd (await (fst (set_default_configuration_options empty_app))
      empty_app)))
     [''JWT_TOKEN_LOCATION'', ''JWT_HEADER_NAME'', ''JWT_HEADER_TYPE'', ''JWT_QUERY_STRING_NAME'',
      ''JWT_COOKIE_CSRF_PROTECT'', ''JWT_CSRF_METHODS'', ''JWT_ACCESS_TOKEN_EXPIRES'',
      ''JWT_REFRESH_TOKEN_EXPIRES'', ''JWT_ALGORITHM'', ''JWT_IDENTITY_CLAIM'', ''JWT_USER_CLAIMS'',
      ''JWT_CLAIMS_IN_REFRESH_TOKEN'', ''JWT_ERROR_MESSAGE_KEY''] =
     [Some (PList [PStr ''headers'']), Some (PStr ''Authorization''), Some (PStr ''Bearer''),
      Some (PStr ''jwt''), Some (PBool True),
      Some (PList [PStr ''POST'', PStr ''PUT'', PStr ''PATCH'', PStr ''DELETE'']),
      Some (PTimedelta (15 * 60)), Some (PTimedelta (30 * 86400)), Some (PStr ''HS256''),
      Some (PStr ''identity''), Some (PStr ''user_claims''), Some (PBool False),
      Some (PStr ''msg'')]"
    by (simp add: awaited_defaults default_configuration_options_def timedelta_minutes_def
        timedelta_days_def)
  ultimately show ?thesis by simp
qed

lemma routing_set_exception_callbacks:
  "routing (set_exception_callbacks app) = routing app @
     [(NoAuthorizationError, unauthorized_callback),
      (CSRFError, unauthorized_callback),
      (ExpiredSignatureError, expired_token_callback),
      (InvalidHeaderError, invalid_token_callback),
      (InvalidTokenError, invalid_token_callback),
      (JWTDecodeError, invalid_token_callback),
      (WrongTokenError, invalid_token_callback),
      (RevokedTokenError, revoked_token_callback),
      (FreshTokenRequired, needs_fresh_token_callback),
      (UserLoadError, user_loader_error_callback),
      (UserClaimsVerificationError, verify_claims_failed_callback)]"
  by (simp add: routing_def exception_handlers_set handle_auth_error_def handle_csrf_error_def
      handle_expired_error_def handle_invalid_header_error_def handle_invalid_token_error_def
      handle_jwt_decode_error_def handle_wrong_token_error_def handle_revoked_token_error_def
      handle_fresh_token_required_def handler_user_load_error_def
      handle_failed_user_claims_verification_def)

lemma routing_fresh:
  assumes "exception_handlers app = []"
  shows "routing (set_exception_callbacks app) =
     [(NoAuthorizationError, unauthorized_callback),
      (CSRFError, unauthorized_callback),
      (ExpiredSignatureError, expired_token_callback),
      (InvalidHeaderError, invalid_token_callback),
      (InvalidTokenError, invalid_token_callback),
      (JWTDecodeError, invalid_token_callback),
      (WrongTokenError, invalid_token_callback),
      (RevokedTokenError, revoked_token_callback),
      (FreshTokenRequired, needs_fresh_token_callback),
      (UserLoadError, user_loader_error_callback),
      (UserClaimsVerificationError, verify_claims_failed_callback)]"
  using assms by (simp add: routing_set_exception_callbacks) (simp add: routing_def)

lemma routing_unique:
  assumes "exception_handlers app = []" and "cls \<noteq> TypeError"
  shows "\<exists>!h. (cls, h) \<in> set (routing (set_exception_callbacks app))"
  using assms(2) unfolding routing_fresh [OF assms(1)] by (cases cls) auto

text \<open>
  C2 fails as stated: \<open>NoAuthorizationError\<close> and \<open>CSRFError\<close> are distinct exception
  classes and both are routed to the unauthorized callback.
\<close>

theorem distinct_errors_share_a_hook:
  "map_of (routing (set_exception_callbacks empty_app)) NoAuthorizationError =
     Some unauthorized_callback \<and>
   map_of (routing (set_exception_callbacks empty_app)) CSRFError =
     Some unauthorized_callback \<and>
   NoAuthorizationError \<noteq> CSRFError"
  by (simp add: routing_fresh empty_app_def)

text \<open>
  C2, amended. On an application with no earlier handlers, every exception class
  handled by \<open>_set_exception_callbacks\<close> is routed to exactly one callback, and the
  routing is many-to-one: \<open>NoAuthorizationError\<close> and \<open>CSRFError\<close> go to the unauthorized
  callback; \<open>InvalidHeaderError\<close>, \<open>InvalidTokenError\<close>, \<open>JWTDecodeError\<close> and
  \<open>WrongTokenError\<close> go to the invalid-token callback; each of the other five classes
  has a callback of its own.
\<close>

theorem error_routing_many_to_one:
  assumes "exception_handlers app = []"
  shows "routing (set_exception_callbacks app) =
     [(NoAuthorizationError, unauthorized_callback),
      (CSRFError, unauthorized_callback),
      (ExpiredSignatureError, expired_token_callback),
      (InvalidHeaderError, invalid_token_callback),
      (InvalidTokenError, invalid_token_callback),
      (JWTDecodeError, invalid_token_callback),
      (WrongTokenError, invalid_token_callback),
      (RevokedTokenError, revoked_token_callback),
      (FreshTokenRequired, needs_fresh_token_callback),
      (UserLoadError, user_loader_error_callback),
      (UserClaimsVerificationError, verify_claims_failed_callback)] \<and>
    (\<forall>cls. cls \<noteq> TypeError \<longrightarrow>
       (\<exists>!h. (cls, h) \<in> set (routing (set_exception_callbacks app))))"
  using routing_fresh [OF assms] routing_unique [OF assms] by blast

text \<open>
  C2, amended, on the application with no handlers.
\<close>

theorem error_routing_many_to_one_witness:
  "exception_handlers empty_app = [] \<and>
   map_of (routing (set_exception_callbacks empty_app)) WrongTokenError =
     Some invalid_token_callback \<and>
   (\<exists>!h. (UserLoadError, h) \<in> set (routing (set_exception_callbacks empty_app)))"
proof -
  have h: "exception_handlers empty_app = []" by (simp add: empty_app_def)
  have "UserLoadError \<noteq> TypeError" by simp
  with error_routing_many_to_one [OF h] h show ?thesis by simp
qed

section \<open>The callback registry\<close>

lemma JWTManager_init_callbacks:
  "fst (JWTManager_init D app) =
     (\<lambda>h. case h of
        user_claims_callback \<Rightarrow> Some (default_user_claims_callback D)
      | user_identity_callback \<Rightarrow> Some (default_user_identity_callback D)
      | expired_token_callback \<Rightarrow> Some (default_expired_token_callback D)
      | invalid_token_callback \<Rightarrow> Some (default_invalid_token_callback D)
      | unauthorized_callback \<Rightarrow> Some (default_unauthorized_callback D)
      | needs_fresh_token_callback \<Rightarrow> Some (default_needs_fresh_token_callback D)
      | revoked_token_callback \<Rightarrow> Some (default_revoked_token_callback D)
      | user_loader_callback \<Rightarrow> None
      | user_loader_error_callback \<Rightarrow> Some (default_user_loader_error_callback D)
      | token_in_blacklist_callback \<Rightarrow> None
      | claims_verification_callback \<Rightarrow> Some (default_claims_verification_callback D)
      | verify_claims_failed_callback \<Rightarrow> Some (default_verify_claims_failed_callback D)
      | decode_key_callback \<Rightarrow> Some (default_decode_key_callback D)
      | encode_key_callback \<Rightarrow> Some (default_encode_key_callback D))"
proof
  fix h
  show "fst (JWTManager_init D app) h = (case h of
        user_claims_callback \<Rightarrow> Some (default_user_claims_callback D)
      | user_identity_callback \<Rightarrow> Some (default_user_identity_callback D)
      | expired_token_callback \<Rightarrow> Some (default_expired_token_callback D)
      | invalid_token_callback \<Rightarrow> Some (default_invalid_token_callback D)
      | unauthorized_callback \<Rightarrow> Some (default_unauthorized_callback D)
      | needs_fresh_token_callback \<Rightarrow> Some (default_needs_fresh_token_callback D)
      | revoked_token_callback \<Rightarrow> Some (default_revoked_token_callback D)
      | user_loader_callback \<Rightarrow> None
      | user_loader_error_callback \<Rightarrow> Some (default_user_loader_error_callback D)
      | token_in_blacklist_callback \<Rightarrow> None
      | claims_verification_callback \<Rightarrow> Some (default_claims_verification_callback D)
      | verify_claims_failed_callback \<Rightarrow> Some (default_verify_claims_failed_callback D)
      | decode_key_callback \<Rightarrow> Some (default_decode_key_callback D)
      | encode_key_callback \<Rightarrow> Some (default_encode_key_callback D))"
    by (cases h; cases app; simp add: JWTManager_init_def Let_def)
qed

lemma seeded_iff:
  "fst (JWTManager_init D app) h = None \<longleftrightarrow>
     h = user_loader_callback \<or> h = token_in_blacklist_callback"
  by (cases h) (simp_all add: JWTManager_init_callbacks)

text \<open>
  C4 fails as stated: construction leaves the user-loader and the
  token-in-blacklist callbacks unset.
\<close>

theorem construction_leaves_two_hooks_unset:
  "fst (JWTManager_init example_defaults None) user_loader_callback = None \<and>
   fst (JWTManager_init example_defaults None) token_in_blacklist_callback = None"
  by (simp add: JWTManager_init_callbacks)

lemma sync_loaders:
  "invalid_token_loader self cb = (cb, self(invalid_token_callback \<mapsto> cb))"
  "unauthorized_loader self cb = (cb, self(unauthorized_callback \<mapsto> cb))"
  "needs_fresh_token_loader self cb = (cb, self(needs_fresh_token_callback \<mapsto> cb))"
  "revoked_token_loader self cb = (cb, self(revoked_token_callback \<mapsto> cb))"
  "user_loader_callback_loader self cb = (cb, self(user_loader_callback \<mapsto> cb))"
  "user_loader_error_loader self cb = (cb, self(user_loader_error_callback \<mapsto> cb))"
  "token_in_blacklist_loader self cb = (cb, self(token_in_blacklist_callback \<mapsto> cb))"
  "claims_verification_loader self cb = (cb, self(claims_verification_callback \<mapsto> cb))"
  "claims_verification_failed_loader self cb = (cb, self(verify_claims_failed_callback \<mapsto> cb))"
  "decode_key_loader self cb = (cb, self(decode_key_callback \<mapsto> cb))"
  "encode_key_loader self cb = (cb, self(encode_key_callback \<mapsto> cb))"
  by (simp_all add: invalid_token_loader_def unauthorized_loader_def needs_fresh_token_loader_def
      revoked_token_loader_def user_loader_callback_loader_def user_loader_error_loader_def
      token_in_blacklist_loader_def claims_verification_loader_def
      claims_verification_failed_loader_def decode_key_loader_def encode_key_loader_def)

text \<open>
  C4, amended. Construction seeds every callback with its default except the
  user-loader and the token-in-blacklist callbacks, which it sets to \<open>None\<close>. Each of
  the eleven loaders \<open>invalid_token_loader\<close>, \<open>unauthorized_loader\<close>,
  \<open>needs_fresh_token_loader\<close>, \<open>revoked_token_loader\<close>, \<open>user_loader_callback_loader\<close>,
  \<open>user_loader_error_loader\<close>, \<open>token_in_blacklist_loader\<close>, \<open>claims_verification_loader\<close>,
  \<open>claims_verification_failed_loader\<close>, \<open>decode_key_loader\<close> and \<open>encode_key_loader\<close>
  replaces the implementation of its own callback and leaves the others as they
  were, so the last registration wins.
\<close>

theorem callbacks_seeded_and_last_registration_wins:
  "(fst (JWTManager_init D app) h = None \<longleftrightarrow>
      h = user_loader_callback \<or> h = token_in_blacklist_callback) \<and>
   fst (JWTManager_init D app) user_claims_callback = Some (default_user_claims_callback D) \<and>
   fst (JWTManager_init D app) user_identity_callback = Some (default_user_identity_callback D) \<and>
   fst (JWTManager_init D app) expired_token_callback = Some (default_expired_token_callback D) \<and>
   fst (JWTManager_init D app) invalid_token_callback = Some (default_invalid_token_callback D) \<and>
   fst (JWTManager_init D app) unauthorized_callback = Some (default_unauthorized_callback D) \<and>
   fst (JWTManager_init D app) needs_fresh_token_callback =
     Some (default_needs_fresh_token_callback D) \<and>
   fst (JWTManager_init D app) revoked_token_callback = Some (default_revoked_token_callback D) \<and>
   fst (JWTManager_init D app) user_loader_error_callback =
     Some (default_user_loader_error_callback D) \<and>
   fst (JWTManager_init D app) claims_verification_callback =
     Some (default_claims_verification_callback D) \<and>
   fst (JWTManager_init D app) verify_claims_failed_callback =
     Some (default_verify_claims_failed_callback D) \<and>
   fst (JWTManager_init D app) decode_key_callback = Some (default_decode_key_callback D) \<and>
   fst (JWTManager_init D app) encode_key_callback = Some (default_encode_key_callback D) \<and>
   snd (invalid_token_loader self cb) = self(invalid_token_callback \<mapsto> cb) \<and>
   snd (unauthorized_loader self cb) = self(unauthorized_callback \<mapsto> cb) \<and>
   snd (needs_fresh_token_loader self cb) = self(needs_fresh_token_callback \<mapsto> cb) \<and>
   snd (revoked_token_loader self cb) = self(revoked_token_callback \<mapsto> cb) \<and>
   snd (user_loader_callback_loader self cb) = self(user_loader_callback \<mapsto> cb) \<and>
   snd (user_loader_error_loader self cb) = self(user_loader_error_callback \<mapsto> cb) \<and>
   snd (token_in_blacklist_loader self cb) = self(token_in_blacklist_callback \<mapsto> cb) \<and>
   snd (claims_verification_loader self cb) = self(claims_verification_callback \<mapsto> cb) \<and>
   snd (claims_verification_failed_loader self cb) =
     self(verify_claims_failed_callback \<mapsto> cb) \<and>
   snd (decode_key_loader self cb) = self(decode_key_callback \<mapsto> cb) \<and>
   snd (encode_key_loader self cb) = self(encode_key_callback \<mapsto> cb) \<and>
   snd (token_in_blacklist_loader (snd (token_in_blacklist_loader self cb)) cb')
     token_in_blacklist_callback = Some cb' \<and>
   snd (user_loader_callback_loader (snd (user_loader_callback_loader self cb)) cb')
     user_loader_callback = Some cb'"
  using seeded_iff [of D app h]
  by (simp add: JWTManager_init_callbacks sync_loaders)

text \<open>
  C4, amended, on the manager built from concrete defaults.
\<close>

theorem callbacks_seeded_and_last_registration_wins_witness:
  "fst (JWTManager_init example_defaults None) encode_key_callback \<noteq> None \<and>
   snd (token_in_blacklist_loader
          (snd (token_in_blacklist_loader example_manager (\<lambda>args. PBool False)))
          (\<lambda>args. PBool True))
     token_in_blacklist_callback = Some (\<lambda>args. PBool True)"
proof -
  note t = callbacks_seeded_and_last_registration_wins
    [of example_defaults None encode_key_callback example_manager
        "\<lambda>args. PBool False" "\<lambda>args. PBool True"]
  from t have "fst (JWTManager_init example_defaults None) encode_key_callback =
      Some (default_encode_key_callback example_defaults)"
    by blast
  moreover from t have "snd (token_in_blacklist_loader
          (snd (token_in_blacklist_loader example_manager (\<lambda>args. PBool False)))
          (\<lambda>args. PBool True))
     token_in_blacklist_callback = Some (\<lambda>args. PBool True)"
    by blast
  ultimately show ?thesis by simp
qed

lemma map_of_UserLoadError:
  assumes "map_of (exception_handlers app) UserLoadError = None"
  shows "map_of (exception_handlers (init_app self app)) UserLoadError =
           Some handler_user_load_error"
  using assms by (simp add: init_app_eq exception_handlers_set map_add_def)

text \<open>
  C8. When an exception of class \<open>UserLoadError\<close> reaches an application set up by
  \<open>init_app\<close>, Sanic calls the registered handler with the request and the exception.
  The handler declares one parameter, so the call raises \<open>TypeError\<close> and the
  user-loader-error callback is not called. Its body, run with the exception alone,
  would call that callback with the value of \<open>get_jwt_identity()\<close>.
\<close>

theorem user_load_error_handler_raises_type_error:
  "handle_exception (init_app self (app\<lparr>exception_handlers := []\<rparr>)) self ctx request
     (Exc UserLoadError m) = Some (Inl TypeError) \<and>
   call_handler (self(user_loader_error_callback \<mapsto> f)) ctx handler_user_load_error
     [Raised (Exc UserLoadError m)] = Inr (f [get_jwt_identity ctx])"
proof -
  have "map_of (exception_handlers (app\<lparr>exception_handlers := []\<rparr>)) UserLoadError = None"
    by simp
  then have "map_of (exception_handlers (init_app self (app\<lparr>exception_handlers := []\<rparr>)))
      UserLoadError = Some handler_user_load_error"
    by (rule map_of_UserLoadError)
  then have "handle_exception (init_app self (app\<lparr>exception_handlers := []\<rparr>)) self ctx request
     (Exc UserLoadError m) = Some (Inl TypeError)"
    by (simp add: handle_exception_def)
  moreover have "call_handler (self(user_loader_error_callback \<mapsto> f)) ctx
      handler_user_load_error [Raised (Exc UserLoadError m)] = Inr (f [get_jwt_identity ctx])"
    by (simp add: run_handler_def handler_user_load_error_def call_hook_def)
  ultimately show ?thesis by simp
qed

section \<open>Token creation\<close>

lemma example_manager_hooks:
  "example_manager user_identity_callback = Some first_arg"
  "example_manager user_claims_callback = Some (\<lambda>args. PDict [])"
  "example_manager encode_key_callback = Some (\<lambda>args. PStr ''secret'')"
  "example_manager decode_key_callback = Some (\<lambda>args. PStr ''secret'')"
  by (simp_all add: example_manager_def JWTManager_init_callbacks example_defaults_def)

text \<open>
  C6. With the identity and encode-key callbacks registered, and for any encoder:
  when \<open>user_claims_in_refresh_token\<close> is false, \<open>_create_refresh_token\<close> passes
  \<open>user_claims = None\<close> to the encoder whatever the user-claims attribute holds, so the
  user-claims callback is not consulted; when it is true, the encoder receives the
  result of the registered user-claims callback on the identity. The default
  registered for \<open>JWT_CLAIMS_IN_REFRESH_TOKEN\<close> is \<open>False\<close>.
\<close>

theorem refresh_token_claims_follow_option:
  assumes "self user_identity_callback = Some ic"
    and "self encode_key_callback = Some ek"
  shows "(\<not> user_claims_in_refresh_token cfg \<longrightarrow>
            create_refresh_token enc cfg (self(user_claims_callback := g)) i ex =
              Inr (enc (ic [i]) (ek [i]) (algorithm cfg)
                     (case ex of None \<Rightarrow> refresh_expires cfg | Some d \<Rightarrow> d)
                     PNone (csrf_protect cfg) (identity_claim_key cfg) (user_claims_key cfg)
                     (json_encoder cfg))) \<and>
         (user_claims_in_refresh_token cfg \<longrightarrow>
            create_refresh_token enc cfg (self(user_claims_callback \<mapsto> cc)) i ex =
              Inr (enc (ic [i]) (ek [i]) (algorithm cfg)
                     (case ex of None \<Rightarrow> refresh_expires cfg | Some d \<Rightarrow> d)
                     (cc [i]) (csrf_protect cfg) (identity_claim_key cfg) (user_claims_key cfg)
                     (json_encoder cfg))) \<and>
         map_of default_configuration_options ''JWT_CLAIMS_IN_REFRESH_TOKEN'' =
           Some (PBool False)"
proof (intro conjI impI)
  assume f: "\<not> user_claims_in_refresh_token cfg"
  have a: "(self(user_claims_callback := g)) user_identity_callback = Some ic"
    using assms(1) by simp
  have b: "(self(user_claims_callback := g)) encode_key_callback = Some ek"
    using assms(2) by simp
  from f a b show "create_refresh_token enc cfg (self(user_claims_callback := g)) i ex =
      Inr (enc (ic [i]) (ek [i]) (algorithm cfg)
             (case ex of None \<Rightarrow> refresh_expires cfg | Some d \<Rightarrow> d)
             PNone (csrf_protect cfg) (identity_claim_key cfg) (user_claims_key cfg)
             (json_encoder cfg))"
    by (rule create_refresh_token_without_claims)
next
  assume t: "user_claims_in_refresh_token cfg"
  have c: "(self(user_claims_callback \<mapsto> cc)) user_claims_callback = Some cc" by simp
  have a: "(self(user_claims_callback \<mapsto> cc)) user_identity_callback = Some ic"
    using assms(1) by simp
  have b: "(self(user_claims_callback \<mapsto> cc)) encode_key_callback = Some ek"
    using assms(2) by simp
  from t c a b show "create_refresh_token enc cfg (self(user_claims_callback \<mapsto> cc)) i ex =
      Inr (enc (ic [i]) (ek [i]) (algorithm cfg)
             (case ex of None \<Rightarrow> refresh_expires cfg | Some d \<Rightarrow> d)
             (cc [i]) (csrf_protect cfg) (identity_claim_key cfg) (user_claims_key cfg)
             (json_encoder cfg))"
    by (rule create_refresh_token_with_claims)
next
  show "map_of default_configuration_options ''JWT_CLAIMS_IN_REFRESH_TOKEN'' =
      Some (PBool False)"
    by (simp add: default_configuration_options_def)
qed

text \<open>
  C6 on concrete managers: no claims with the option off and the user-claims
  attribute cleared, the callback's claims with the option on.
\<close>

theorem refresh_token_claims_follow_option_witness:
  "example_manager user_identity_callback = Some first_arg \<and>
   example_manager encode_key_callback = Some (\<lambda>args. PStr ''secret'') \<and>
   \<not> user_claims_in_refresh_token example_config \<and>
   create_refresh_token claims_of example_config
     (example_manager(user_claims_callback := None)) (PStr ''u1'') None = Inr PNone \<and>
   user_claims_in_refresh_token (example_config\<lparr>user_claims_in_refresh_token := True\<rparr>) \<and>
   create_refresh_token claims_of (example_config\<lparr>user_claims_in_refresh_token := True\<rparr>)
     (example_manager(user_claims_callback \<mapsto> (\<lambda>args. PDict [(''role'', PStr ''admin'')])))
     (PStr ''u1'') None = Inr (PDict [(''role'', PStr ''admin'')])"
proof -
  note a = example_manager_hooks(1)
  note b = example_manager_hooks(3)
  have f: "\<not> user_claims_in_refresh_token example_config"
    by (simp add: example_config_def)
  have t: "user_claims_in_refresh_token (example_config\<lparr>user_claims_in_refresh_token := True\<rparr>)"
    by simp
  note w1 = refresh_token_claims_follow_option
    [where self = example_manager and ic = first_arg and ek = "\<lambda>args. PStr ''secret''"
       and cfg = example_config and enc = claims_of and g = None and i = "PStr ''u1''"
       and ex = None]
  note w2 = refresh_token_claims_follow_option
    [where self = example_manager and ic = first_arg and ek = "\<lambda>args. PStr ''secret''"
       and cfg = "example_config\<lparr>user_claims_in_refresh_token := True\<rparr>" and enc = claims_of
       and cc = "\<lambda>args. PDict [(''role'', PStr ''admin'')]" and i = "PStr ''u1''" and ex = None]
  from w1 a b f have 1: "create_refresh_token claims_of example_config
     (example_manager(user_claims_callback := None)) (PStr ''u1'') None = Inr PNone"
    by (simp add: claims_of_def)
  from w2 a b t have 2: "create_refresh_token claims_of
     (example_config\<lparr>user_claims_in_refresh_token := True\<rparr>)
     (example_manager(user_claims_callback \<mapsto> (\<lambda>args. PDict [(''role'', PStr ''admin'')])))
     (PStr ''u1'') None = Inr (PDict [(''role'', PStr ''admin'')])"
    by (simp add: claims_of_def)
  from a b f t 1 2 show ?thesis by blast
qed

lemma csrf_value_token_data:
  "csrf_value (token_data env j tt fr d c csrf) \<noteq> None \<longleftrightarrow> csrf"
  by (simp add: token_data_def)

lemma refresh_token_payload:
  assumes "create_refresh_token (encode_refresh_token prim env) cfg self i ex = Inr tok"
  shows "\<exists>j secret c. tok = sign prim (algorithm cfg) secret (json_encoder cfg)
             (identity_claim_key cfg, user_claims_key cfg)
             (token_data env j Refresh False
                (case ex of None \<Rightarrow> refresh_expires cfg | Some d \<Rightarrow> d) c (csrf_protect cfg))"
  using create_refresh_token_Inr [OF assms] by (auto simp: encode_refresh_token_def)

lemma access_token_payload:
  assumes "create_access_token (encode_access_token prim env) cfg self i fr ex = Inr tok"
  shows "\<exists>j secret c. tok = sign prim (algorithm cfg) secret (json_encoder cfg)
             (identity_claim_key cfg, user_claims_key cfg)
             (token_data env j Access fr
                (case ex of None \<Rightarrow> access_expires cfg | Some d \<Rightarrow> d) c (csrf_protect cfg))"
  using create_access_token_Inr [OF assms] by (auto simp: encode_access_token_def)

lemma create_refresh_token_returns:
  assumes "self user_identity_callback \<noteq> None"
    and "self encode_key_callback \<noteq> None"
    and "user_claims_in_refresh_token cfg \<longrightarrow> self user_claims_callback \<noteq> None"
  shows "\<exists>tok. create_refresh_token enc cfg self i ex = Inr tok"
  using assms by (auto simp: create_refresh_token_def call_hook_def Let_def)

lemma example_refresh_token:
  "create_refresh_token (encode_refresh_token example_primitive example_env) example_config
     example_manager (PStr ''u1'') None =
   Inr (PStr ''secret'', token_data example_env (PStr ''u1'') Refresh False 2592000 PNone False)"
  by (simp add: create_refresh_token_without_claims [where ic = first_arg
        and ek = "\<lambda>args. PStr ''secret''"] example_manager_hooks example_config_def
      encode_refresh_token_def example_primitive_def first_arg_def)

lemma example_access_token:
  "create_access_token (encode_access_token example_primitive example_env) example_config
     example_manager (PStr ''u1'') True None =
   Inr (PStr ''secret'', token_data example_env (PStr ''u1'') Access True 900 (PDict []) False)"
  by (simp add: create_access_token_result [where ic = first_arg
        and ek = "\<lambda>args. PStr ''secret''" and cc = "\<lambda>args. PDict []"] example_manager_hooks
      example_config_def encode_access_token_def example_primitive_def first_arg_def)

text \<open>
  C5. Every token that \<open>_create_refresh_token\<close> returns is the signature of a
  refresh payload that is not fresh, for every identity and every \<open>expires_delta\<close>;
  and it does return a token whenever the callbacks it calls are registered.
\<close>

theorem refresh_token_never_fresh:
  "(create_refresh_token (encode_refresh_token prim env) cfg self i ex = Inr tok \<longrightarrow>
      (\<exists>secret t. tok = sign prim (algorithm cfg) secret (json_encoder cfg)
                      (identity_claim_key cfg, user_claims_key cfg) t \<and>
                   token_type t = Refresh \<and> \<not> fresh t)) \<and>
   (self user_identity_callback \<noteq> None \<and> self encode_key_callback \<noteq> None \<and>
    (user_claims_in_refresh_token cfg \<longrightarrow> self user_claims_callback \<noteq> None) \<longrightarrow>
      (\<exists>tok'. create_refresh_token (encode_refresh_token prim env) cfg self i ex = Inr tok'))"
proof (intro conjI impI)
  assume "create_refresh_token (encode_refresh_token prim env) cfg self i ex = Inr tok"
  from refresh_token_payload [OF this] obtain j secret c where
    "tok = sign prim (algorithm cfg) secret (json_encoder cfg)
             (identity_claim_key cfg, user_claims_key cfg)
             (token_data env j Refresh False
                (case ex of None \<Rightarrow> refresh_expires cfg | Some d \<Rightarrow> d) c (csrf_protect cfg))"
    by blast
  moreover have "token_type (token_data env j Refresh False
      (case ex of None \<Rightarrow> refresh_expires cfg | Some d \<Rightarrow> d) c (csrf_protect cfg)) = Refresh"
    by (simp add: token_data_def)
  moreover have "\<not> fresh (token_data env j Refresh False
      (case ex of None \<Rightarrow> refresh_expires cfg | Some d \<Rightarrow> d) c (csrf_protect cfg))"
    by (simp add: token_data_def)
  ultimately show "\<exists>secret t. tok = sign prim (algorithm cfg) secret (json_encoder cfg)
      (identity_claim_key cfg, user_claims_key cfg) t \<and> token_type t = Refresh \<and> \<not> fresh t"
    by blast
next
  assume "self user_identity_callback \<noteq> None \<and> self encode_key_callback \<noteq> None \<and>
    (user_claims_in_refresh_token cfg \<longrightarrow> self user_claims_callback \<noteq> None)"
  then show "\<exists>tok'. create_refresh_token (encode_refresh_token prim env) cfg self i ex = Inr tok'"
    using create_refresh_token_returns by blast
qed

text \<open>
  C5 on the concrete manager: the refresh token issued for \<open>u1\<close>.
\<close>

theorem refresh_token_never_fresh_witness:
  "create_refresh_token (encode_refresh_token example_primitive example_env) example_config
     example_manager (PStr ''u1'') None =
     Inr (PStr ''secret'',
          token_data example_env (PStr ''u1'') Refresh False 2592000 PNone False) \<and>
   (\<exists>secret t. (PStr ''secret'',
                 token_data example_env (PStr ''u1'') Refresh False 2592000 PNone False) =
        sign example_primitive (algorithm example_config) secret (json_encoder example_config)
          (identity_claim_key example_config, user_claims_key example_config) t \<and>
        token_type t = Refresh \<and> \<not> fresh t) \<and>
   example_manager user_identity_callback \<noteq> None \<and>
   example_manager encode_key_callback \<noteq> None \<and>
   \<not> user_claims_in_refresh_token example_config \<and>
   (\<exists>tok'. create_refresh_token (encode_refresh_token example_primitive example_env)
             example_config example_manager (PStr ''u1'') None = Inr tok')"
proof -
  note w = refresh_token_never_fresh
    [where prim = example_primitive and env = example_env and cfg = example_config
       and self = example_manager and i = "PStr ''u1''" and ex = None
       and tok = "(PStr ''secret'',
          token_data example_env (PStr ''u1'') Refresh False 2592000 PNone False)"]
  have a: "example_manager user_identity_callback \<noteq> None"
    by (simp add: example_manager_hooks)
  have b: "example_manager encode_key_callback \<noteq> None"
    by (simp add: example_manager_hooks)
  have f: "\<not> user_claims_in_refresh_token example_config"
    by (simp add: example_config_def)
  from w example_refresh_token a b f show ?thesis by blast
qed

lemma csrf_value_of_token_data:
  "csrf_value (token_data env j tt fr d c csrf) = (if csrf then Some (new_csrf_value env) else None)"
  by (simp add: token_data_def)

lemma access_token_issued:
  assumes "self user_identity_callback = Some ic"
    and "self encode_key_callback = Some ek"
    and "self user_claims_callback = Some cc"
  shows "\<exists>t. create_access_token (encode_access_token prim env) cfg self i fr ex =
                Inr (sign prim (algorithm cfg) (ek [i]) (json_encoder cfg)
                       (identity_claim_key cfg, user_claims_key cfg) t) \<and>
              csrf_value t = (if csrf_protect cfg then Some (new_csrf_value env) else None)"
proof -
  let ?t = "token_data env (ic [i]) Access fr
              (case ex of None \<Rightarrow> access_expires cfg | Some d \<Rightarrow> d) (cc [i]) (csrf_protect cfg)"
  have "create_access_token (encode_access_token prim env) cfg self i fr ex =
          Inr (sign prim (algorithm cfg) (ek [i]) (json_encoder cfg)
                 (identity_claim_key cfg, user_claims_key cfg) ?t)"
    using assms by (simp add: create_access_token_def call_hook_Some encode_access_token_def)
  moreover have "csrf_value ?t = (if csrf_protect cfg then Some (new_csrf_value env) else None)"
    by (rule csrf_value_of_token_data)
  ultimately show ?thesis by blast
qed

lemma refresh_token_issued:
  assumes "self user_identity_callback = Some ic"
    and "self encode_key_callback = Some ek"
    and "user_claims_in_refresh_token cfg \<longrightarrow> self user_claims_callback = Some cc"
  shows "\<exists>t. create_refresh_token (encode_refresh_token prim env) cfg self i ex =
                Inr (sign prim (algorithm cfg) (ek [i]) (json_encoder cfg)
                       (identity_claim_key cfg, user_claims_key cfg) t) \<and>
              csrf_value t = (if csrf_protect cfg then Some (new_csrf_value env) else None)"
proof -
  let ?c = "if user_claims_in_refresh_token cfg then cc [i] else PNone"
  let ?t = "token_data env (ic [i]) Refresh False
              (case ex of None \<Rightarrow> refresh_expires cfg | Some d \<Rightarrow> d) ?c (csrf_protect cfg)"
  have "create_refresh_token (encode_refresh_token prim env) cfg self i ex =
          Inr (sign prim (algorithm cfg) (ek [i]) (json_encoder cfg)
                 (identity_claim_key cfg, user_claims_key cfg) ?t)"
    using assms by (simp add: create_refresh_token_def call_hook_Some encode_refresh_token_def)
  moreover have "csrf_value ?t = (if csrf_protect cfg then Some (new_csrf_value env) else None)"
    by (rule csrf_value_of_token_data)
  ultimately show ?thesis by blast
qed

text \<open>
  C7. Both \<open>_create_access_token\<close> and \<open>_create_refresh_token\<close>, with the callbacks they
  call registered, return a token whose payload carries a new CSRF value when
  \<open>config.csrf_protect\<close> holds and none when it does not. In every token either of
  them returns, the payload carries a CSRF value exactly when \<open>config.csrf_protect\<close>
  holds; when that property is the CSRF toggle restricted to cookie transport and
  the cookie transport is not among the token locations, the payload carries none.
\<close>

theorem csrf_value_iff_csrf_protect:
  "(self user_identity_callback = Some ic \<and> self encode_key_callback = Some ek \<and>
    self user_claims_callback = Some cc \<longrightarrow>
      (\<exists>t. create_access_token (encode_access_token prim env) cfg self i fr ex =
              Inr (sign prim (algorithm cfg) (ek [i]) (json_encoder cfg)
                     (identity_claim_key cfg, user_claims_key cfg) t) \<and>
            csrf_value t = (if csrf_protect cfg then Some (new_csrf_value env) else None))) \<and>
   (self user_identity_callback = Some ic \<and> self encode_key_callback = Some ek \<and>
    (user_claims_in_refresh_token cfg \<longrightarrow> self user_claims_callback = Some cc) \<longrightarrow>
      (\<exists>t. create_refresh_token (encode_refresh_token prim env) cfg self i ex =
              Inr (sign prim (algorithm cfg) (ek [i]) (json_encoder cfg)
                     (identity_claim_key cfg, user_claims_key cfg) t) \<and>
            csrf_value t = (if csrf_protect cfg then Some (new_csrf_value env) else None))) \<and>
   (create_access_token (encode_access_token prim env) cfg self i fr ex = Inr tok \<longrightarrow>
      (\<exists>secret t. tok = sign prim (algorithm cfg) secret (json_encoder cfg)
                      (identity_claim_key cfg, user_claims_key cfg) t \<and>
                   (csrf_value t \<noteq> None \<longleftrightarrow> csrf_protect cfg) \<and>
                   (csrf_protect cfg = csrf_protect_for locations toggle \<and>
                    Cookie \<notin> set locations \<longrightarrow> csrf_value t = None))) \<and>
   (create_refresh_token (encode_refresh_token prim env) cfg self i ex = Inr tok' \<longrightarrow>
      (\<exists>secret t. tok' = sign prim (algorithm cfg) secret (json_encoder cfg)
                      (identity_claim_key cfg, user_claims_key cfg) t \<and>
                   (csrf_value t \<noteq> None \<longleftrightarrow> csrf_protect cfg) \<and>
                   (csrf_protect cfg = csrf_protect_for locations toggle \<and>
                    Cookie \<notin> set locations \<longrightarrow> csrf_value t = None)))"
proof (intro conjI impI)
  assume "self user_identity_callback = Some ic \<and> self encode_key_callback = Some ek \<and>
    self user_claims_callback = Some cc"
  then show "\<exists>t. create_access_token (encode_access_token prim env) cfg self i fr ex =
              Inr (sign prim (algorithm cfg) (ek [i]) (json_encoder cfg)
                     (identity_claim_key cfg, user_claims_key cfg) t) \<and>
            csrf_value t = (if csrf_protect cfg then Some (new_csrf_value env) else None)"
    using access_token_issued by blast
next
  assume "self user_identity_callback = Some ic \<and> self encode_key_callback = Some ek \<and>
    (user_claims_in_refresh_token cfg \<longrightarrow> self user_claims_callback = Some cc)"
  then show "\<exists>t. create_refresh_token (encode_refresh_token prim env) cfg self i ex =
              Inr (sign prim (algorithm cfg) (ek [i]) (json_encoder cfg)
                     (identity_claim_key cfg, user_claims_key cfg) t) \<and>
            csrf_value t = (if csrf_protect cfg then Some (new_csrf_value env) else None)"
    using refresh_token_issued by blast
next
  assume "create_access_token (encode_access_token prim env) cfg self i fr ex = Inr tok"
  from access_token_payload [OF this] obtain j secret c where
    t: "tok = sign prim (algorithm cfg) secret (json_encoder cfg)
             (identity_claim_key cfg, user_claims_key cfg)
             (token_data env j Access fr
                (case ex of None \<Rightarrow> access_expires cfg | Some d \<Rightarrow> d) c (csrf_protect cfg))"
    by blast
  let ?t = "token_data env j Access fr
                (case ex of None \<Rightarrow> access_expires cfg | Some d \<Rightarrow> d) c (csrf_protect cfg)"
  have 1: "csrf_value ?t \<noteq> None \<longleftrightarrow> csrf_protect cfg" by (rule csrf_value_token_data)
  have 2: "csrf_protect cfg = csrf_protect_for locations toggle \<and> Cookie \<notin> set locations \<longrightarrow>
      csrf_value ?t = None"
    using 1 by (auto simp: csrf_protect_for_def)
  from t 1 2 show "\<exists>secret t. tok = sign prim (algorithm cfg) secret (json_encoder cfg)
      (identity_claim_key cfg, user_claims_key cfg) t \<and>
      (csrf_value t \<noteq> None \<longleftrightarrow> csrf_protect cfg) \<and>
      (csrf_protect cfg = csrf_protect_for locations toggle \<and> Cookie \<notin> set locations \<longrightarrow>
         csrf_value t = None)"
    by blast
next
  assume "create_refresh_token (encode_refresh_token prim env) cfg self i ex = Inr tok'"
  from refresh_token_payload [OF this] obtain j secret c where
    t: "tok' = sign prim (algorithm cfg) secret (json_encoder cfg)
             (identity_claim_key cfg, user_claims_key cfg)
             (token_data env j Refresh False
                (case ex of None \<Rightarrow> refresh_expires cfg | Some d \<Rightarrow> d) c (csrf_protect cfg))"
    by blast
  let ?t = "token_data env j Refresh False
                (case ex of None \<Rightarrow> refresh_expires cfg | Some d \<Rightarrow> d) c (csrf_protect cfg)"
  have 1: "csrf_value ?t \<noteq> None \<longleftrightarrow> csrf_protect cfg" by (rule csrf_value_token_data)
  have 2: "csrf_protect cfg = csrf_protect_for locations toggle \<and> Cookie \<notin> set locations \<longrightarrow>
      csrf_value ?t = None"
    using 1 by (auto simp: csrf_protect_for_def)
  from t 1 2 show "\<exists>secret t. tok' = sign prim (algorithm cfg) secret (json_encoder cfg)
      (identity_claim_key cfg, user_claims_key cfg) t \<and>
      (csrf_value t \<noteq> None \<longleftrightarrow> csrf_protect cfg) \<and>
      (csrf_protect cfg = csrf_protect_for locations toggle \<and> Cookie \<notin> set locations \<longrightarrow>
         csrf_value t = None)"
    by blast
qed

text \<open>
  C7 on two configurations: under CSRF protection with the cookie transport, the
  access and the refresh token issued for \<open>u1\<close> carry the new CSRF value; with the
  header as the only token location, they carry none.
\<close>

theorem csrf_value_iff_csrf_protect_witness:
  "example_manager user_identity_callback = Some first_arg \<and>
   example_manager encode_key_callback = Some (\<lambda>args. PStr ''secret'') \<and>
   example_manager user_claims_callback = Some (\<lambda>args. PDict []) \<and>
   csrf_protect cookie_config = csrf_protect_for [Cookie] True \<and>
   csrf_protect cookie_config \<and>
   (\<exists>t. create_access_token (encode_access_token example_primitive example_env) cookie_config
           example_manager (PStr ''u1'') True None = Inr (PStr ''secret'', t) \<and>
         csrf_value t = Some ''c5'') \<and>
   (\<exists>t. create_refresh_token (encode_refresh_token example_primitive example_env) cookie_config
           example_manager (PStr ''u1'') None = Inr (PStr ''secret'', t) \<and>
         csrf_value t = Some ''c5'') \<and>
   csrf_protect example_config = csrf_protect_for [Header] True \<and>
   Cookie \<notin> set [Header] \<and>
   (\<exists>t. create_access_token (encode_access_token example_primitive example_env) example_config
           example_manager (PStr ''u1'') True None = Inr (PStr ''secret'', t) \<and>
         csrf_value t = None) \<and>
   (\<exists>t. create_refresh_token (encode_refresh_token example_primitive example_env) example_config
           example_manager (PStr ''u1'') None = Inr (PStr ''secret'', t) \<and>
         csrf_value t = None)"
proof -
  note h = example_manager_hooks
  note w1 = csrf_value_iff_csrf_protect
    [where prim = example_primitive and env = example_env and cfg = cookie_config
       and self = example_manager and ic = first_arg and ek = "\<lambda>args. PStr ''secret''"
       and cc = "\<lambda>args. PDict []" and i = "PStr ''u1''" and fr = True and ex = None]
  note w2 = csrf_value_iff_csrf_protect
    [where prim = example_primitive and env = example_env and cfg = example_config
       and self = example_manager and ic = first_arg and ek = "\<lambda>args. PStr ''secret''"
       and cc = "\<lambda>args. PDict []" and i = "PStr ''u1''" and fr = True and ex = None
       and locations = "[Header]" and toggle = True
       and tok = "(PStr ''secret'',
          token_data example_env (PStr ''u1'') Access True 900 (PDict []) False)"
       and tok' = "(PStr ''secret'',
          token_data example_env (PStr ''u1'') Refresh False 2592000 PNone False)"]
  have c1: "csrf_protect cookie_config = csrf_protect_for [Cookie] True"
    by (simp add: cookie_config_def csrf_protect_for_def)
  have c2: "csrf_protect cookie_config" by (simp add: cookie_config_def)
  have f: "\<not> user_claims_in_refresh_token cookie_config"
    by (simp add: cookie_config_def example_config_def)
  have s: "sign example_primitive = (\<lambda>alg key encoder keys t. (key, t))"
    by (simp add: example_primitive_def)
  from w1 h(1) h(3) h(2) c2 have a1: "\<exists>t. create_access_token
      (encode_access_token example_primitive example_env) cookie_config
      example_manager (PStr ''u1'') True None = Inr (PStr ''secret'', t) \<and>
      csrf_value t = Some ''c5''"
    by (simp add: s example_env_def)
  from w1 h(1) h(3) f c2 have a2: "\<exists>t. create_refresh_token
      (encode_refresh_token example_primitive example_env) cookie_config
      example_manager (PStr ''u1'') None = Inr (PStr ''secret'', t) \<and>
      csrf_value t = Some ''c5''"
    by (simp add: s example_env_def)
  have d1: "csrf_protect example_config = csrf_protect_for [Header] True"
    by (simp add: example_config_def csrf_protect_for_def)
  have d2: "Cookie \<notin> set [Header]" by simp
  from w2 example_access_token d1 d2 have b1: "\<exists>t. create_access_token
      (encode_access_token example_primitive example_env) example_config
      example_manager (PStr ''u1'') True None = Inr (PStr ''secret'', t) \<and> csrf_value t = None"
    by (auto simp: s)
  from w2 example_refresh_token d1 d2 have b2: "\<exists>t. create_refresh_token
      (encode_refresh_token example_primitive example_env) example_config
      example_manager (PStr ''u1'') None = Inr (PStr ''secret'', t) \<and> csrf_value t = None"
    by (auto simp: s)
  from h(1) h(3) h(2) c1 c2 a1 a2 d1 d2 b1 b2 show ?thesis by blast
qed

text \<open>
  C9. After an encode-key and a decode-key callback have been registered through
  their loaders, both creation functions hand the encoder, as its secret, the
  result of the encode-key callback on the identity passed in, for any encoder; and
  decoding checks the token string against the result of the decode-key callback on
  its unverified claims.
\<close>

theorem keys_resolved_by_callbacks:
  assumes "self user_identity_callback = Some ic"
    and "self user_claims_callback = Some cc"
    and "self' = snd (decode_key_loader (snd (encode_key_loader self ek)) dk)"
  shows "create_access_token enc_a cfg self' i fr ex =
           Inr (enc_a (ic [i]) (ek [i]) (algorithm cfg)
                  (case ex of None \<Rightarrow> access_expires cfg | Some d \<Rightarrow> d)
                  fr (cc [i]) (csrf_protect cfg) (identity_claim_key cfg) (user_claims_key cfg)
                  (json_encoder cfg)) \<and>
         create_refresh_token enc_r cfg self' i ex =
           Inr (enc_r (ic [i]) (ek [i]) (algorithm cfg)
                  (case ex of None \<Rightarrow> refresh_expires cfg | Some d \<Rightarrow> d)
                  (if user_claims_in_refresh_token cfg then cc [i] else PNone)
                  (csrf_protect cfg) (identity_claim_key cfg) (user_claims_key cfg)
                  (json_encoder cfg)) \<and>
         (unverified_claims prim encoded = Some claims \<longrightarrow>
            decode prim cfg self' time encoded =
              (case verify prim (algorithm cfg) (dk [claims])
                      (identity_claim_key cfg, user_claims_key cfg) encoded of
                 None \<Rightarrow> Inl InvalidTokenError
               | Some t \<Rightarrow> if expires_at t < time then Inl ExpiredSignatureError else Inr t))"
proof -
  have s: "self' = self(encode_key_callback \<mapsto> ek, decode_key_callback \<mapsto> dk)"
    by (simp add: assms(3) sync_loaders)
  have a: "self' user_identity_callback = Some ic" using assms(1) by (simp add: s)
  have c: "self' user_claims_callback = Some cc" using assms(2) by (simp add: s)
  have e: "self' encode_key_callback = Some ek" by (simp add: s)
  have d: "self' decode_key_callback = Some dk" by (simp add: s)
  have 1: "create_access_token enc_a cfg self' i fr ex =
           Inr (enc_a (ic [i]) (ek [i]) (algorithm cfg)
                  (case ex of None \<Rightarrow> access_expires cfg | Some d \<Rightarrow> d)
                  fr (cc [i]) (csrf_protect cfg) (identity_claim_key cfg) (user_claims_key cfg)
                  (json_encoder cfg))"
    using a e c by (rule create_access_token_result)
  have 2: "create_refresh_token enc_r cfg self' i ex =
           Inr (enc_r (ic [i]) (ek [i]) (algorithm cfg)
                  (case ex of None \<Rightarrow> refresh_expires cfg | Some d \<Rightarrow> d)
                  (if user_claims_in_refresh_token cfg then cc [i] else PNone)
                  (csrf_protect cfg) (identity_claim_key cfg) (user_claims_key cfg)
                  (json_encoder cfg))"
  proof (cases "user_claims_in_refresh_token cfg")
    case True
    from True c a e show ?thesis
      by (simp add: create_refresh_token_def call_hook_Some)
  next
    case False
    from False a e show ?thesis
      by (simp add: create_refresh_token_def call_hook_Some)
  qed
  have 3: "unverified_claims prim encoded = Some claims \<longrightarrow>
            decode prim cfg self' time encoded =
              (case verify prim (algorithm cfg) (dk [claims])
                      (identity_claim_key cfg, user_claims_key cfg) encoded of
                 None \<Rightarrow> Inl InvalidTokenError
               | Some t \<Rightarrow> if expires_at t < time then Inl ExpiredSignatureError else Inr t)"
    using d by (simp add: decode_def call_hook_Some)
  from 1 2 3 show ?thesis by blast
qed

text \<open>
  C9 on a manager whose key callbacks return the identity: the tokens of \<open>u1\<close> and
  \<open>u2\<close> are signed with different keys, the token of \<open>u1\<close> decodes, and the same
  payload signed with the key of \<open>u2\<close> is rejected.
\<close>

theorem keys_resolved_by_callbacks_witness:
  "example_manager user_identity_callback = Some first_arg \<and>
   example_manager user_claims_callback = Some (\<lambda>args. PDict []) \<and>
   create_access_token (encode_access_token example_primitive example_env) example_config
     tenant_manager (PStr ''u1'') False None =
     Inr (PStr ''u1'', token_data example_env (PStr ''u1'') Access False 900 (PDict []) False) \<and>
   create_access_token (encode_access_token example_primitive example_env) example_config
     tenant_manager (PStr ''u2'') False None =
     Inr (PStr ''u2'', token_data example_env (PStr ''u2'') Access False 900 (PDict []) False) \<and>
   create_refresh_token (encode_refresh_token example_primitive example_env) example_config
     tenant_manager (PStr ''u1'') None =
     Inr (PStr ''u1'', token_data example_env (PStr ''u1'') Refresh False 2592000 PNone False) \<and>
   unverified_claims example_primitive
     (PStr ''u1'', token_data example_env (PStr ''u1'') Access False 900 (PDict []) False) =
     Some (PStr ''u1'') \<and>
   decode example_primitive example_config tenant_manager 1000
     (PStr ''u1'', token_data example_env (PStr ''u1'') Access False 900 (PDict []) False) =
     Inr (token_data example_env (PStr ''u1'') Access False 900 (PDict []) False) \<and>
   decode example_primitive example_config tenant_manager 1000
     (PStr ''u2'', token_data example_env (PStr ''u1'') Access False 900 (PDict []) False) =
     Inl InvalidTokenError"
proof -
  note a = example_manager_hooks(1)
  note c = example_manager_hooks(2)
  let ?t = "token_data example_env (PStr ''u1'') Access False 900 (PDict []) False"
  note w1 = keys_resolved_by_callbacks
    [where self = example_manager and ic = first_arg and cc = "\<lambda>args. PDict []"
       and self' = tenant_manager and ek = first_arg and dk = first_arg
       and enc_a = "encode_access_token example_primitive example_env"
       and enc_r = "encode_refresh_token example_primitive example_env"
       and cfg = example_config and i = "PStr ''u1''" and fr = False and ex = None
       and prim = example_primitive and encoded = "(PStr ''u1'', ?t)"
       and claims = "PStr ''u1''" and time = 1000, OF a c tenant_manager_def]
  note w2 = keys_resolved_by_callbacks
    [where self = example_manager and ic = first_arg and cc = "\<lambda>args. PDict []"
       and self' = tenant_manager and ek = first_arg and dk = first_arg
       and enc_a = "encode_access_token example_primitive example_env"
       and enc_r = "encode_refresh_token example_primitive example_env"
       and cfg = example_config and i = "PStr ''u2''" and fr = False and ex = None
       and prim = example_primitive and encoded = "(PStr ''u2'', ?t)"
       and claims = "PStr ''u1''" and time = 1000, OF a c tenant_manager_def]
  have u1: "unverified_claims example_primitive (PStr ''u1'', ?t) = Some (PStr ''u1'')"
    by (simp add: example_primitive_def token_data_def)
  have u2: "unverified_claims example_primitive (PStr ''u2'', ?t) = Some (PStr ''u1'')"
    by (simp add: example_primitive_def token_data_def)
  from w1 have 1: "create_access_token (encode_access_token example_primitive example_env)
      example_config tenant_manager (PStr ''u1'') False None = Inr (PStr ''u1'', ?t)"
    by (simp add: encode_access_token_def example_primitive_def example_config_def
        first_arg_def)
  from w2 have 2: "create_access_token (encode_access_token example_primitive example_env)
      example_config tenant_manager (PStr ''u2'') False None =
      Inr (PStr ''u2'', token_data example_env (PStr ''u2'') Access False 900 (PDict []) False)"
    by (simp add: encode_access_token_def example_primitive_def example_config_def
        first_arg_def)
  from w1 have 3: "create_refresh_token (encode_refresh_token example_primitive example_env)
      example_config tenant_manager (PStr ''u1'') None =
      Inr (PStr ''u1'', token_data example_env (PStr ''u1'') Refresh False 2592000 PNone False)"
    by (simp add: encode_refresh_token_def example_primitive_def example_config_def
        first_arg_def)
  from w1 u1 have 4: "decode example_primitive example_config tenant_manager 1000
      (PStr ''u1'', ?t) = Inr ?t"
    by (simp add: example_primitive_def first_arg_def token_data_def example_env_def)
  from w2 u2 have 5: "decode example_primitive example_config tenant_manager 1000
      (PStr ''u2'', ?t) = Inl InvalidTokenError"
    by (simp add: example_primitive_def first_arg_def)
  from a c 1 2 3 u1 4 5 show ?thesis by blast
qed

end
